theory Spec2Isabelle
  imports Main
begin

section \<open>Data model\<close>

text \<open>
  The coordinator of \<^verbatim>\<open>server/src/server.ts\<close> keeps one global array
  \<^verbatim>\<open>userSocketMap\<close> of \<^verbatim>\<open>User\<close> objects (interface \<^verbatim>\<open>User\<close> of
  \<^verbatim>\<open>types/user.ts\<close>). The optional fields of the interface are options here. The two
  \<^verbatim>\<open>Map<string, any>\<close> fields hold media engine objects keyed by the object's own id;
  a JavaScript \<^verbatim>\<open>Map\<close> iterates in insertion order, so each is the list of its keys
  and the objects themselves live in the engine store of the state below.
\<close>

type_synonym socket_id = string
type_synonym room_id = string
type_synonym rtp_capabilities = "string list"

datatype user_connection_status = OFFLINE | ONLINE

datatype media_kind = Audio | Video

record user =
  username :: string
  roomId :: room_id
  status :: user_connection_status
  cursorPosition :: nat
  typing :: bool
  currentFile :: "string option"
  socketId :: socket_id
  rtpCapabilities :: "rtp_capabilities option"
  producerTransport :: "nat option"
  consumerTransport :: "nat option"
  producers :: "nat list option"
  consumers :: "nat list option"
  hasVideo :: "bool option"
  hasAudio :: "bool option"

text \<open>
  The objects of the media engine (mediasoup) that the coordinator holds references to.
  Only the fields the coordinator reads or drives are kept: the kind, the paused flag,
  the closed flag and, for a consumer, the id of its source producer.
\<close>

record transport =
  t_closed :: bool

record producer =
  p_kind :: media_kind
  p_paused :: bool
  p_closed :: bool

record consumer =
  c_producerId :: nat
  c_kind :: media_kind
  c_paused :: bool
  c_closed :: bool

text \<open>
  The state: the registry, the rooms of the socket.io adapter (the sockets that called
  \<^verbatim>\<open>socket.join(room)\<close>), the engine objects by id, and the supply of fresh ids
  (the engine names its objects itself; here the next free number does). A reference to
  an engine object is its id, so a lookup in the store has a branch for an id that names
  nothing, which no handler can reach with the ids it finds in the registry.

  A handler that reaches an \<^verbatim>\<open>await\<close> is suspended there, and other handlers
  run before it goes on. The handlers that create a transport and the consume handler
  are modelled in the steps between their suspensions, and run without another handler
  in between they are the steps one after the other; a suspended handler finds the
  user objects it holds again by their socket ids. The other handlers are one
  transition each, from the arrival of the request to the answer. The toggle handlers,
  which start the cascade and do not wait for it, are modelled as such below.
\<close>

record server_state =
  userSocketMap :: "user list"
  ioRooms :: "room_id \<Rightarrow> socket_id list"
  transports :: "nat \<rightharpoonup> transport"
  eproducers :: "nat \<rightharpoonup> producer"
  econsumers :: "nat \<rightharpoonup> consumer"
  nextId :: nat

text \<open>
  What the engine answers is not decided by the coordinator: every call into it may fail
  and the capability check is the router's. These answers are parameters of the model.
\<close>

record engine =
  createTransportFails :: "nat \<Rightarrow> bool"
  produceFails :: "nat \<Rightarrow> media_kind \<Rightarrow> bool"
  canConsume :: "nat \<Rightarrow> rtp_capabilities \<Rightarrow> bool"
  consumeFails :: "nat \<Rightarrow> nat \<Rightarrow> bool"
  producerPauseFails :: "nat \<Rightarrow> bool"
  producerResumeFails :: "nat \<Rightarrow> bool"
  consumerPauseFails :: "nat \<Rightarrow> bool"
  consumerResumeFails :: "nat \<Rightarrow> bool"

text \<open>The descriptor \<^verbatim>\<open>createConsumer\<close> returns for a consumer it created.\<close>

record consumer_details =
  d_producerId :: nat
  d_id :: nat
  d_kind :: media_kind
  d_paused :: bool

text \<open>What the server sends: socket.io events, acknowledgement callbacks, error logs.\<close>

datatype event =
    USERNAME_EXISTS
  | JOIN_ACCEPTED user "user list"
  | USER_JOINED user
  | USER_DISCONNECTED user
  | VIDEO_STATE_CHANGED socket_id bool
  | AUDIO_STATE_CHANGED socket_id bool

datatype response =
    RError string
  | RSuccess
  | RSuccessAlreadyJoined
  | RParams nat
  | RProducerId nat
  | RConsumerDetailsArray "consumer_details list"

datatype emission =
    Emit socket_id event
  | Broadcast room_id socket_id event
  | Callback socket_id response
  | ConsoleError string

section \<open>Registry lookups\<close>

definition getUsersInRoom :: "server_state \<Rightarrow> room_id \<Rightarrow> user list" where
  "getUsersInRoom st r =
     (if r = [] then [] else filter (\<lambda>u. roomId u = r) (userSocketMap st))"

definition getUserBySocketId :: "server_state \<Rightarrow> socket_id \<Rightarrow> user option" where
  "getUserBySocketId st sid = find (\<lambda>u. socketId u = sid) (userSocketMap st)"

text \<open>
  A handler mutates the object \<^verbatim>\<open>getUserBySocketId\<close> returned, which is the first
  entry of the array with that socket id.
\<close>

fun update_user :: "socket_id \<Rightarrow> (user \<Rightarrow> user) \<Rightarrow> user list \<Rightarrow> user list" where
  "update_user sid f [] = []"
| "update_user sid f (u # us) =
     (if socketId u = sid then f u # us else u # update_user sid f us)"

definition socket_join :: "socket_id \<Rightarrow> room_id \<Rightarrow> server_state \<Rightarrow> server_state" where
  "socket_join sid r st =
     st\<lparr>ioRooms := (ioRooms st)
       (r := (if sid \<in> set (ioRooms st r) then ioRooms st r else ioRooms st r @ [sid]))\<rparr>"

definition socket_leave :: "socket_id \<Rightarrow> room_id \<Rightarrow> server_state \<Rightarrow> server_state" where
  "socket_leave sid r st = st\<lparr>ioRooms := (ioRooms st)(r := removeAll sid (ioRooms st r))\<rparr>"

text \<open>
  The sockets an emission reaches. \<^verbatim>\<open>socket.broadcast.to(room)\<close> and
  \<^verbatim>\<open>socket.to(room)\<close> reach the sockets of the room other than the sender.
\<close>

fun recipients :: "server_state \<Rightarrow> emission \<Rightarrow> socket_id list" where
  "recipients st (Emit sid ev) = [sid]"
| "recipients st (Broadcast r sid ev) = filter (\<lambda>t. t \<noteq> sid) (ioRooms st r)"
| "recipients st (Callback sid rsp) = [sid]"
| "recipients st (ConsoleError msg) = []"

section \<open>Joining and leaving\<close>

text \<open>Handler of \<^verbatim>\<open>JOIN_REQUEST\<close>, for the socket \<open>sid\<close> and the payload \<open>usr\<close>.\<close>

definition join_request :: "socket_id \<Rightarrow> user \<Rightarrow> server_state \<Rightarrow> server_state \<times> emission list" where
  "join_request sid usr st =
     (case find (\<lambda>u. roomId u = roomId usr \<and> username u = username usr) (userSocketMap st) of
        Some existingUser \<Rightarrow> (st, [Emit sid USERNAME_EXISTS])
      | None \<Rightarrow>
          (let newUser = usr\<lparr>socketId := sid, status := ONLINE, cursorPosition := 0,
                              typing := False, currentFile := None\<rparr>;
               st1 = socket_join sid (roomId usr) st;
               st2 = st1\<lparr>userSocketMap := userSocketMap st1 @ [newUser]\<rparr>;
               roomUsers = filter (\<lambda>u. socketId u \<noteq> sid) (getUsersInRoom st2 (roomId usr))
           in (st2, [Emit sid (JOIN_ACCEPTED newUser roomUsers),
                     Broadcast (roomId usr) sid (USER_JOINED newUser)])))"

text \<open>Handler of \<^verbatim>\<open>disconnecting\<close>. The broadcast is sent before the socket leaves.\<close>

definition disconnecting :: "socket_id \<Rightarrow> server_state \<Rightarrow> server_state \<times> emission list" where
  "disconnecting sid st =
     (case getUserBySocketId st sid of
        None \<Rightarrow> (st, [])
      | Some usr \<Rightarrow>
          (socket_leave sid (roomId usr)
             (st\<lparr>userSocketMap := filter (\<lambda>u. socketId u \<noteq> sid) (userSocketMap st)\<rparr>),
           [Broadcast (roomId usr) sid (USER_DISCONNECTED usr)]))"

section \<open>Capability negotiation and transports\<close>

text \<open>
  Handler of \<^verbatim>\<open>JOIN_ROUTER\<close>. The payload \<^verbatim>\<open>data.rtpCapabilities\<close> has type
  \<^verbatim>\<open>any\<close>; \<open>None\<close> stands for a missing or otherwise falsy value, which the test
  \<^verbatim>\<open>if (peer.rtpCapabilities)\<close> does not tell from an unset field.
\<close>

definition join_router ::
  "socket_id \<Rightarrow> rtp_capabilities option \<Rightarrow> server_state \<Rightarrow> server_state \<times> emission list" where
  "join_router sid caps st =
     (case getUserBySocketId st sid of
        None \<Rightarrow> (st, [Callback sid (RError ''Peer not found'')])
      | Some peer \<Rightarrow>
          (case rtpCapabilities peer of
             Some c \<Rightarrow> (st, [Callback sid RSuccessAlreadyJoined])
           | None \<Rightarrow>
               (st\<lparr>userSocketMap :=
                    update_user sid (\<lambda>u. u\<lparr>rtpCapabilities := caps\<rparr>) (userSocketMap st)\<rparr>,
                [Callback sid RSuccess])))"

text \<open>
  \<^verbatim>\<open>createWebRtcTransport\<close>: the engine creates the transport or throws. A failure of
  \<^verbatim>\<open>setMaxIncomingBitrate\<close> is caught inside and changes nothing.
\<close>

definition createWebRtcTransport :: "engine \<Rightarrow> server_state \<Rightarrow> string + (nat \<times> server_state)" where
  "createWebRtcTransport eng st =
     (if createTransportFails eng (nextId st) then Inl ''Error creating WebRTC transport''
      else Inr (nextId st,
                st\<lparr>transports := (transports st)(nextId st \<mapsto> \<lparr>t_closed = False\<rparr>),
                   nextId := Suc (nextId st)\<rparr>))"

text \<open>
  The handlers of \<^verbatim>\<open>CREATE_PRODUCER_TRANSPORT\<close> and \<^verbatim>\<open>CREATE_CONSUMER_TRANSPORT\<close>
  test the peer's slot, then \<^verbatim>\<open>await createWebRtcTransport()\<close>, then store the
  transport in the slot and answer. The handler is suspended at the \<^verbatim>\<open>await\<close> and
  other handlers run meanwhile, so it is two steps: the test, which answers at once
  (\<open>Some\<close>) or lets the handler go on (\<open>None\<close>), and the rest, which runs when the
  engine has answered. The handler run without another one in between is the one step
  after the other.
\<close>

definition create_producer_transport_test ::
  "socket_id \<Rightarrow> server_state \<Rightarrow> emission list option" where
  "create_producer_transport_test sid st =
     (case getUserBySocketId st sid of
        None \<Rightarrow> Some [Callback sid (RError ''Peer not found'')]
      | Some peer \<Rightarrow>
          (case producerTransport peer of
             Some t \<Rightarrow> Some [Callback sid (RError ''Producer transport already exists'')]
           | None \<Rightarrow> None))"

definition create_producer_transport_store ::
  "engine \<Rightarrow> socket_id \<Rightarrow> server_state \<Rightarrow> server_state \<times> emission list" where
  "create_producer_transport_store eng sid st =
     (case createWebRtcTransport eng st of
        Inl e \<Rightarrow>
          (st, [ConsoleError e, ConsoleError ''createProducerTransport error'',
                Callback sid (RError ''Failed to create producer transport'')])
      | Inr (tid, st1) \<Rightarrow>
          (st1\<lparr>userSocketMap :=
             update_user sid (\<lambda>u. u\<lparr>producerTransport := Some tid\<rparr>) (userSocketMap st1)\<rparr>,
           [Callback sid (RParams tid)]))"

definition create_producer_transport ::
  "engine \<Rightarrow> socket_id \<Rightarrow> server_state \<Rightarrow> server_state \<times> emission list" where
  "create_producer_transport eng sid st =
     (case create_producer_transport_test sid st of
        Some answer \<Rightarrow> (st, answer)
      | None \<Rightarrow> create_producer_transport_store eng sid st)"

definition create_consumer_transport_test ::
  "socket_id \<Rightarrow> server_state \<Rightarrow> emission list option" where
  "create_consumer_transport_test sid st =
     (case getUserBySocketId st sid of
        None \<Rightarrow> Some [Callback sid (RError ''Peer not found'')]
      | Some peer \<Rightarrow>
          (case consumerTransport peer of
             Some t \<Rightarrow> Some [Callback sid (RError ''Consumer transport already exists'')]
           | None \<Rightarrow> None))"

definition create_consumer_transport_store ::
  "engine \<Rightarrow> socket_id \<Rightarrow> server_state \<Rightarrow> server_state \<times> emission list" where
  "create_consumer_transport_store eng sid st =
     (case createWebRtcTransport eng st of
        Inl e \<Rightarrow>
          (st, [ConsoleError e, ConsoleError ''createConsumerTransport error'',
                Callback sid (RError ''Failed to create consumer transport'')])
      | Inr (tid, st1) \<Rightarrow>
          (st1\<lparr>userSocketMap :=
             update_user sid (\<lambda>u. u\<lparr>consumerTransport := Some tid\<rparr>) (userSocketMap st1)\<rparr>,
           [Callback sid (RParams tid)]))"

definition create_consumer_transport ::
  "engine \<Rightarrow> socket_id \<Rightarrow> server_state \<Rightarrow> server_state \<times> emission list" where
  "create_consumer_transport eng sid st =
     (case create_consumer_transport_test sid st of
        Some answer \<Rightarrow> (st, answer)
      | None \<Rightarrow> create_consumer_transport_store eng sid st)"

section \<open>Producers and consumers\<close>

text \<open>\<^verbatim>\<open>map.set(key, object)\<close> on a field that may not hold a map yet.\<close>

definition map_set :: "nat \<Rightarrow> nat list option \<Rightarrow> nat list" where
  "map_set k m =
     (case m of None \<Rightarrow> [k] | Some ks \<Rightarrow> (if k \<in> set ks then ks else ks @ [k]))"

text \<open>
  Handler of \<^verbatim>\<open>PRODUCE\<close>. \<open>transportId\<close> is the id the client claims, if it sends one.
  When the engine fails, the answer carries the engine's message, for which a fixed
  text stands here.
\<close>

definition produce ::
  "engine \<Rightarrow> socket_id \<Rightarrow> media_kind \<Rightarrow> nat option \<Rightarrow> server_state \<Rightarrow> server_state \<times> emission list" where
  "produce eng sid kind transportId st =
     (case getUserBySocketId st sid of
        None \<Rightarrow> (st, [Callback sid (RError ''Peer or producer transport not found'')])
      | Some peer \<Rightarrow>
          (case producerTransport peer of
             None \<Rightarrow> (st, [Callback sid (RError ''Peer or producer transport not found'')])
           | Some tid \<Rightarrow>
               (if transportId \<noteq> None \<and> transportId \<noteq> Some tid
                then (st, [Callback sid (RError ''Invalid transport ID'')])
                else if produceFails eng tid kind
                then (st, [ConsoleError ''produce error'', Callback sid (RError ''Failed to produce'')])
                else
                  (let pid = nextId st;
                       st1 = st\<lparr>eproducers := (eproducers st)
                                 (pid \<mapsto> \<lparr>p_kind = kind, p_paused = False, p_closed = False\<rparr>),
                               nextId := Suc pid\<rparr>;
                       st2 = st1\<lparr>userSocketMap := update_user sid
                                 (\<lambda>u. (if kind = Video then u\<lparr>hasVideo := Some True\<rparr>
                                       else u\<lparr>hasAudio := Some True\<rparr>)
                                      \<lparr>producers := Some (map_set pid (producers u))\<rparr>)
                                 (userSocketMap st1)\<rparr>
                   in (st2, [Broadcast (roomId peer) sid
                               (if kind = Video then VIDEO_STATE_CHANGED sid True
                                else AUDIO_STATE_CHANGED sid True),
                             Callback sid (RProducerId pid)])))))"

text \<open>
  \<^verbatim>\<open>createConsumer(consumerPeer, producer)\<close>. The peer is the object of the socket
  \<open>sid\<close>, the producer the engine object \<open>pid\<close>. Each \<^verbatim>\<open>throw\<close> is an \<open>Inl\<close>.
  The descriptor keeps the fields \<^verbatim>\<open>producerId\<close>, \<^verbatim>\<open>id\<close>, \<^verbatim>\<open>kind\<close> and
  \<^verbatim>\<open>paused\<close>; the RTP parameters and the application data are opaque to the
  coordinator and left out.
\<close>

definition createConsumer ::
  "engine \<Rightarrow> socket_id \<Rightarrow> nat \<Rightarrow> server_state \<Rightarrow> string + (consumer_details \<times> server_state)" where
  "createConsumer eng sid pid st =
     (case getUserBySocketId st sid of
        None \<Rightarrow> Inl ''consumerPeer not found''
      | Some consumerPeer \<Rightarrow>
          (case consumerTransport consumerPeer of
             None \<Rightarrow> Inl ''consumerTransport not found''
           | Some tid \<Rightarrow>
               (case rtpCapabilities consumerPeer of
                  None \<Rightarrow> Inl ''cannot consume - incompatible RTP capabilities''
                | Some caps \<Rightarrow>
                    (if \<not> canConsume eng pid caps
                     then Inl ''cannot consume - incompatible RTP capabilities''
                     else
                       (case eproducers st pid of
                          None \<Rightarrow> Inl ''consume error''
                        | Some pr \<Rightarrow>
                            (if consumeFails eng tid pid then Inl ''consume error''
                             else
                               (let cid = nextId st;
                                    c = \<lparr>c_producerId = pid, c_kind = p_kind pr,
                                         c_paused = (p_kind pr = Video), c_closed = False\<rparr>;
                                    st1 = st\<lparr>econsumers := (econsumers st)(cid \<mapsto> c),
                                            nextId := Suc cid,
                                            userSocketMap := update_user sid
                                              (\<lambda>u. u\<lparr>consumers := Some (map_set cid (consumers u))\<rparr>)
                                              (userSocketMap st)\<rparr>
                                in Inr (\<lparr>d_producerId = pid, d_id = cid, d_kind = c_kind c,
                                         d_paused = c_paused c\<rparr>, st1))))))))"

text \<open>
  Handler of \<^verbatim>\<open>CONSUME\<close>. After its two lookups the handler walks
  \<^verbatim>\<open>otherPeer.producers.values()\<close>, the iterator of the source peer's own map, and
  awaits \<^verbatim>\<open>createConsumer\<close> in every turn. The iterator of a JavaScript \<^verbatim>\<open>Map\<close>
  is live: each turn takes the entry at the iterator's position from the map as it
  stands then, so an entry that \<^verbatim>\<open>PRODUCE\<close> adds while the handler is suspended
  is met as well (no handler removes an entry). What the handler keeps between two turns
  is the position of the iterator and the descriptors pushed so far (and the two user
  objects, which are found again by their socket ids here; a source peer that has
  disconnected meanwhile has no map to be found). A turn in which
  \<^verbatim>\<open>createConsumer\<close> throws logs twice, once in \<^verbatim>\<open>createConsumer\<close> and once in
  the \<^verbatim>\<open>catch\<close> of the loop.
\<close>

definition producers_of :: "server_state \<Rightarrow> socket_id \<Rightarrow> nat list" where
  "producers_of st peerId =
     (case find (\<lambda>u. socketId u = peerId) (userSocketMap st) of
        None \<Rightarrow> []
      | Some otherPeer \<Rightarrow> (case producers otherPeer of None \<Rightarrow> [] | Some ps \<Rightarrow> ps))"

record consume_run =
  r_pos :: nat
  r_details :: "consumer_details list"

text \<open>
  The start of the handler: an answer at once, or the loop is entered. Without a
  non-empty map the loop is not entered at all.
\<close>

definition consume_start :: "socket_id \<Rightarrow> socket_id \<Rightarrow> server_state \<Rightarrow> emission list + consume_run" where
  "consume_start sid peerId st =
     (case getUserBySocketId st sid of
        None \<Rightarrow> Inl [Callback sid (RError ''Peer not found'')]
      | Some peer \<Rightarrow>
          (case find (\<lambda>u. socketId u = peerId) (userSocketMap st) of
             None \<Rightarrow> Inl [Callback sid (RError ''Source peer not found'')]
           | Some otherPeer \<Rightarrow>
               (if producers_of st peerId = []
                then Inl [Callback sid (RConsumerDetailsArray [])]
                else Inr \<lparr>r_pos = 0, r_details = []\<rparr>)))"

text \<open>One turn of the loop, for an iterator that has not reached the end of the map.\<close>

definition consume_turn ::
  "engine \<Rightarrow> socket_id \<Rightarrow> socket_id \<Rightarrow> consume_run \<Rightarrow> server_state
     \<Rightarrow> consume_run \<times> server_state \<times> emission list" where
  "consume_turn eng sid peerId run st =
     (if r_pos run < length (producers_of st peerId)
      then
        (case createConsumer eng sid (producers_of st peerId ! r_pos run) st of
           Inl e \<Rightarrow>
             (run\<lparr>r_pos := Suc (r_pos run)\<rparr>, st,
              [ConsoleError e, ConsoleError ''Failed to create consumer for producer''])
         | Inr (d, st1) \<Rightarrow>
             (\<lparr>r_pos = Suc (r_pos run), r_details = r_details run @ [d]\<rparr>, st1, []))
      else (run, st, []))"

text \<open>
  The loop run without another handler in between. It ends, since a turn moves the
  iterator on and leaves the map of the source peer as it is.
\<close>

lemma map_option_find_same:
  assumes "\<And>u. P u \<Longrightarrow> g u = u"
  shows "map_option g (find P us) = find P us"
  using assms by (induction us) auto

lemma find_update_user_socketId:
  assumes "\<And>u. socketId (f u) = socketId u"
  shows "find (\<lambda>u. socketId u = x) (update_user sid f us)
           = map_option (\<lambda>u. if socketId u = sid then f u else u)
               (find (\<lambda>u. socketId u = x) us)"
proof (induction us)
  case Nil
  then show ?case by simp
next
  case (Cons a us)
  have "map_option (\<lambda>u. if socketId u = sid then f u else u) (find (\<lambda>u. socketId u = x) us)
          = find (\<lambda>u. socketId u = x) us" if "x \<noteq> sid"
    using that by (intro map_option_find_same) auto
  then show ?case
    using Cons assms by auto
qed

lemma createConsumer_producers_of:
  assumes "createConsumer eng sid pid st = Inr (d, st1)"
  shows "producers_of st1 peerId = producers_of st peerId"
proof -
  have "userSocketMap st1 = update_user sid
          (\<lambda>u. u\<lparr>consumers := Some (map_set (nextId st) (consumers u))\<rparr>) (userSocketMap st)"
    using assms
    by (auto simp: createConsumer_def Let_def split: option.splits if_splits)
  then show ?thesis
    by (simp add: producers_of_def find_update_user_socketId split: option.splits)
qed

lemma consume_turn_moves_on:
  assumes "consume_turn eng sid peerId run st = (run1, st1, logs)"
      and "r_pos run < length (producers_of st peerId)"
  shows "producers_of st1 peerId = producers_of st peerId \<and> r_pos run1 = Suc (r_pos run)"
  using assms
  by (auto simp: consume_turn_def createConsumer_producers_of split: sum.splits)

function consume_loop ::
  "engine \<Rightarrow> socket_id \<Rightarrow> socket_id \<Rightarrow> consume_run \<Rightarrow> server_state
     \<Rightarrow> consumer_details list \<times> server_state \<times> emission list" where
  "consume_loop eng sid peerId run st =
     (if r_pos run < length (producers_of st peerId)
      then
        (case consume_turn eng sid peerId run st of
           (run1, st1, logs1) \<Rightarrow>
             (case consume_loop eng sid peerId run1 st1 of
                (ds, st2, logs2) \<Rightarrow> (ds, st2, logs1 @ logs2)))
      else (r_details run, st, []))"
  by pat_completeness auto
termination
proof (relation "measure (\<lambda>(eng, sid, peerId, run, st). length (producers_of st peerId) - r_pos run)")
  show "wf (measure (\<lambda>(eng, sid, peerId, run, st). length (producers_of st peerId) - r_pos run))"
    by simp
next
  fix eng sid peerId run st run1 y st1 logs1
  assume p: "r_pos run < length (producers_of st peerId)"
     and "(run1, y) = consume_turn eng sid peerId run st" and "(st1, logs1) = y"
  then have "consume_turn eng sid peerId run st = (run1, st1, logs1)"
    by simp
  from consume_turn_moves_on[OF this p]
  show "((eng, sid, peerId, run1, st1), (eng, sid, peerId, run, st))
          \<in> measure (\<lambda>(eng, sid, peerId, run, st). length (producers_of st peerId) - r_pos run)"
    using p by simp
qed

declare consume_loop.simps [simp del]

definition consume ::
  "engine \<Rightarrow> socket_id \<Rightarrow> socket_id \<Rightarrow> server_state \<Rightarrow> server_state \<times> emission list" where
  "consume eng sid peerId st =
     (case consume_start sid peerId st of
        Inl answer \<Rightarrow> (st, answer)
      | Inr run \<Rightarrow>
          (case consume_loop eng sid peerId run st of
             (ds, st', logs) \<Rightarrow> (st', logs @ [Callback sid (RConsumerDetailsArray ds)])))"

section \<open>Pausing and resuming a producer\<close>

text \<open>
  \<^verbatim>\<open>pauseProducer\<close> and \<^verbatim>\<open>resumeProducer\<close> are the same code but for the engine
  call they make (\<^verbatim>\<open>pause()\<close> or \<^verbatim>\<open>resume()\<close>); the call is the parameter \<open>a\<close>.
  An engine call that does not throw sets the paused flag of its object.
\<close>

datatype action = Pause | Resume

definition producer_call_fails :: "engine \<Rightarrow> action \<Rightarrow> nat \<Rightarrow> bool" where
  "producer_call_fails eng a pid =
     (case a of Pause \<Rightarrow> producerPauseFails eng pid | Resume \<Rightarrow> producerResumeFails eng pid)"

definition consumer_call_fails :: "engine \<Rightarrow> action \<Rightarrow> nat \<Rightarrow> bool" where
  "consumer_call_fails eng a cid =
     (case a of Pause \<Rightarrow> consumerPauseFails eng cid | Resume \<Rightarrow> consumerResumeFails eng cid)"

definition set_producer_paused :: "action \<Rightarrow> nat \<Rightarrow> server_state \<Rightarrow> server_state" where
  "set_producer_paused a pid st =
     st\<lparr>eproducers := (eproducers st)
       (pid := map_option (\<lambda>p. p\<lparr>p_paused := (a = Pause)\<rparr>) (eproducers st pid))\<rparr>"

definition set_consumer_paused :: "action \<Rightarrow> nat \<Rightarrow> server_state \<Rightarrow> server_state" where
  "set_consumer_paused a cid st =
     st\<lparr>econsumers := (econsumers st)
       (cid := map_option (\<lambda>c. c\<lparr>c_paused := (a = Pause)\<rparr>) (econsumers st cid))\<rparr>"

text \<open>
  The listeners \<^verbatim>\<open>createConsumer\<close> registers for \<^verbatim>\<open>producerpause\<close> and
  \<^verbatim>\<open>producerresume\<close>, which the cascade triggers with \<^verbatim>\<open>consumer.emit\<close>: they make
  the same engine call on the consumer once more and catch its failure themselves.
  Events that the engine raises on its own are not part of the coordinator's code and
  are outside the model.
\<close>

definition on_producer_event :: "engine \<Rightarrow> action \<Rightarrow> nat \<Rightarrow> server_state \<Rightarrow> server_state" where
  "on_producer_event eng a cid st =
     (if consumer_call_fails eng a cid then st else set_consumer_paused a cid st)"

text \<open>The test \<^verbatim>\<open>consumer.producerId === producer.id\<close>, read through the store.\<close>

definition consumer_of :: "server_state \<Rightarrow> nat \<Rightarrow> nat \<Rightarrow> bool" where
  "consumer_of st cid pid =
     (case econsumers st cid of None \<Rightarrow> False | Some c \<Rightarrow> c_producerId c = pid)"

text \<open>The test \<^verbatim>\<open>producer.kind === kind\<close>, read through the store.\<close>

definition producer_has_kind :: "server_state \<Rightarrow> nat \<Rightarrow> media_kind \<Rightarrow> bool" where
  "producer_has_kind st pid kind =
     (case eproducers st pid of None \<Rightarrow> False | Some p \<Rightarrow> p_kind p = kind)"

text \<open>
  The inner loop, over the entries of one user's \<^verbatim>\<open>consumers\<close> map, and the outer
  loop, over \<^verbatim>\<open>userSocketMap\<close>. A throw leaves the loops: the result is then
  \<open>Some\<close> error, with the state as it was when the call threw.
\<close>

fun cascade_consumers ::
  "engine \<Rightarrow> action \<Rightarrow> nat \<Rightarrow> nat list \<Rightarrow> server_state \<Rightarrow> string option \<times> server_state" where
  "cascade_consumers eng a pid [] st = (None, st)"
| "cascade_consumers eng a pid (cid # cids) st =
     (if consumer_of st cid pid
      then
        (if consumer_call_fails eng a cid then (Some ''consumer call failed'', st)
         else cascade_consumers eng a pid cids
                (on_producer_event eng a cid (set_consumer_paused a cid st)))
      else cascade_consumers eng a pid cids st)"

fun cascade_users ::
  "engine \<Rightarrow> action \<Rightarrow> nat \<Rightarrow> user list \<Rightarrow> server_state \<Rightarrow> string option \<times> server_state" where
  "cascade_users eng a pid [] st = (None, st)"
| "cascade_users eng a pid (u # us) st =
     (case consumers u of
        None \<Rightarrow> cascade_users eng a pid us st
      | Some cids \<Rightarrow>
          (case cascade_consumers eng a pid cids st of
             (Some e, st1) \<Rightarrow> (Some e, st1)
           | (None, st1) \<Rightarrow> cascade_users eng a pid us st1))"

text \<open>The body of the two functions: one \<^verbatim>\<open>try\<close> around everything, whose
  \<^verbatim>\<open>catch\<close> logs.\<close>

definition producer_cascade ::
  "engine \<Rightarrow> action \<Rightarrow> nat \<Rightarrow> server_state \<Rightarrow> server_state \<times> emission list" where
  "producer_cascade eng a pid st =
     (if producer_call_fails eng a pid
      then (st, [ConsoleError (case a of Pause \<Rightarrow> ''Error pausing producer''
                                       | Resume \<Rightarrow> ''Error resuming producer'')])
      else
        (case cascade_users eng a pid (userSocketMap st) (set_producer_paused a pid st) of
           (Some e, st1) \<Rightarrow>
             (st1, [ConsoleError (case a of Pause \<Rightarrow> ''Error pausing producer''
                                           | Resume \<Rightarrow> ''Error resuming producer'')])
         | (None, st1) \<Rightarrow> (st1, [])))"

definition pauseProducer :: "engine \<Rightarrow> nat \<Rightarrow> server_state \<Rightarrow> server_state \<times> emission list" where
  "pauseProducer eng pid st = producer_cascade eng Pause pid st"

definition resumeProducer :: "engine \<Rightarrow> nat \<Rightarrow> server_state \<Rightarrow> server_state \<times> emission list" where
  "resumeProducer eng pid st = producer_cascade eng Resume pid st"

section \<open>Toggling video and audio\<close>

text \<open>
  The handlers of \<^verbatim>\<open>TOGGLE_VIDEO\<close> and \<^verbatim>\<open>TOGGLE_AUDIO\<close> are not \<^verbatim>\<open>async\<close> and
  call \<^verbatim>\<open>pauseProducer\<close> and \<^verbatim>\<open>resumeProducer\<close> without \<^verbatim>\<open>await\<close>. Such a call
  returns at the first \<^verbatim>\<open>await\<close> of the callee, which is the engine call on the
  producer, and the rest of the callee runs only after the handler has returned. A
  handler therefore yields, next to its state and emissions, the calls it has started;
  \<open>run_tasks\<close> completes them afterwards, one after the other. Every operation of
  the engine is asynchronous, so the paused flag of the producer too is set only when
  the started call completes. \<open>cb\<close> says whether the client passed an
  acknowledgement callback.
\<close>

datatype task = PauseProducer nat | ResumeProducer nat

fun run_task :: "engine \<Rightarrow> task \<Rightarrow> server_state \<Rightarrow> server_state \<times> emission list" where
  "run_task eng (PauseProducer pid) st = pauseProducer eng pid st"
| "run_task eng (ResumeProducer pid) st = resumeProducer eng pid st"

fun run_tasks :: "engine \<Rightarrow> task list \<Rightarrow> server_state \<Rightarrow> server_state \<times> emission list" where
  "run_tasks eng [] st = (st, [])"
| "run_tasks eng (t # ts) st =
     (case run_task eng t st of
        (st1, out1) \<Rightarrow>
          (case run_tasks eng ts st1 of (st2, out2) \<Rightarrow> (st2, out1 @ out2)))"

definition toggle ::
  "media_kind \<Rightarrow> socket_id \<Rightarrow> bool \<Rightarrow> bool \<Rightarrow> server_state
     \<Rightarrow> server_state \<times> emission list \<times> task list" where
  "toggle kind sid enabled cb st =
     (case getUserBySocketId st sid of
        None \<Rightarrow> (st, (if cb then [Callback sid (RError ''User not found'')] else []), [])
      | Some usr \<Rightarrow>
          (case producers usr of
             None \<Rightarrow> (st, (if cb then [Callback sid (RError ''User not found'')] else []), [])
           | Some ps \<Rightarrow>
               (let kindProducers =
                      filter (\<lambda>p. producer_has_kind st p kind) ps;
                    tasks = map (if enabled then ResumeProducer else PauseProducer) kindProducers;
                    st1 = st\<lparr>userSocketMap := update_user sid
                              (\<lambda>u. if kind = Video then u\<lparr>hasVideo := Some enabled\<rparr>
                                   else u\<lparr>hasAudio := Some enabled\<rparr>)
                              (userSocketMap st)\<rparr>
                in (st1,
                    (if roomId usr \<noteq> []
                     then [Broadcast (roomId usr) sid
                             (if kind = Video then VIDEO_STATE_CHANGED sid enabled
                              else AUDIO_STATE_CHANGED sid enabled)]
                     else [])
                    @ (if cb then [Callback sid RSuccess] else []),
                    tasks))))"

definition toggle_video ::
  "socket_id \<Rightarrow> bool \<Rightarrow> bool \<Rightarrow> server_state \<Rightarrow> server_state \<times> emission list \<times> task list" where
  "toggle_video sid enabled cb st = toggle Video sid enabled cb st"

definition toggle_audio ::
  "socket_id \<Rightarrow> bool \<Rightarrow> bool \<Rightarrow> server_state \<Rightarrow> server_state \<times> emission list \<times> task list" where
  "toggle_audio sid enabled cb st = toggle Audio sid enabled cb st"

text \<open>A handler together with the completion of the calls it started.\<close>

definition completed ::
  "engine \<Rightarrow> server_state \<times> emission list \<times> task list \<Rightarrow> server_state \<times> emission list" where
  "completed eng r =
     (case r of (st1, out, tasks) \<Rightarrow>
        (case run_tasks eng tasks st1 of (st2, logs) \<Rightarrow> (st2, out @ logs)))"

section \<open>Notions used to state the properties\<close>

text \<open>The ids the cascade meets, in the order of its two nested loops.\<close>

definition consumer_ids :: "user list \<Rightarrow> nat list" where
  "consumer_ids us =
     concat (map (\<lambda>u. case consumers u of None \<Rightarrow> [] | Some cids \<Rightarrow> cids) us)"







text \<open>The loop over a list of producers that is fixed beforehand, for comparison.\<close>

fun create_all ::
  "engine \<Rightarrow> socket_id \<Rightarrow> nat list \<Rightarrow> server_state
     \<Rightarrow> consumer_details list \<times> server_state \<times> emission list" where
  "create_all eng sid [] st = ([], st, [])"
| "create_all eng sid (pid # pids) st =
     (case createConsumer eng sid pid st of
        Inl e \<Rightarrow>
          (case create_all eng sid pids st of
             (ds, st', logs) \<Rightarrow>
               (ds, st', [ConsoleError e, ConsoleError ''Failed to create consumer for producer'']
                         @ logs))
      | Inr (d, st1) \<Rightarrow>
          (case create_all eng sid pids st1 of
             (ds, st', logs) \<Rightarrow> (d # ds, st', logs)))"

text \<open>How many times the emissions \<open>out\<close>, sent in state \<open>st\<close>, reach the socket \<open>t\<close>.\<close>

definition deliveries :: "server_state \<Rightarrow> emission list \<Rightarrow> socket_id \<Rightarrow> nat" where
  "deliveries st out t = count_list (concat (map (recipients st) out)) t"

text \<open>
  The rooms of the adapter hold no socket twice, and the socket of every registered user
  has joined the room the user is registered for.
\<close>

definition rooms_ok :: "server_state \<Rightarrow> bool" where
  "rooms_ok st =
     ((\<forall>r. distinct (ioRooms st r))
      \<and> (\<forall>u \<in> set (userSocketMap st). socketId u \<in> set (ioRooms st (roomId u))))"

section \<open>Sample data\<close>

text \<open>
  An engine that never fails, and the state of a room in which alice publishes a video
  and an audio track that bob and carol consume, while dave has only joined.
\<close>

definition engine_ok :: engine where
  "engine_ok = \<lparr>createTransportFails = (\<lambda>n. False), produceFails = (\<lambda>t k. False),
     canConsume = (\<lambda>p caps. True), consumeFails = (\<lambda>t p. False),
     producerPauseFails = (\<lambda>p. False), producerResumeFails = (\<lambda>p. False),
     consumerPauseFails = (\<lambda>c. False), consumerResumeFails = (\<lambda>c. False)\<rparr>"

definition empty_state :: server_state where
  "empty_state = \<lparr>userSocketMap = [], ioRooms = (\<lambda>r. []), transports = Map.empty,
     eproducers = Map.empty, econsumers = Map.empty, nextId = 10\<rparr>"

definition blank_user :: user where
  "blank_user = \<lparr>username = [], roomId = [], status = ONLINE, cursorPosition = 0,
     typing = False, currentFile = None, socketId = [], rtpCapabilities = None,
     producerTransport = None, consumerTransport = None, producers = None,
     consumers = None, hasVideo = None, hasAudio = None\<rparr>"

definition peer_A :: user where
  "peer_A = blank_user\<lparr>username := ''alice'', roomId := ''r1'', socketId := ''A'',
     rtpCapabilities := Some [''opus'', ''VP8''], producerTransport := Some 10,
     producers := Some [11, 12], hasVideo := Some True, hasAudio := Some True\<rparr>"

definition peer_B :: user where
  "peer_B = blank_user\<lparr>username := ''bob'', roomId := ''r1'', socketId := ''B'',
     rtpCapabilities := Some [''opus'', ''VP8''], consumerTransport := Some 13,
     consumers := Some [14, 15]\<rparr>"

definition peer_C :: user where
  "peer_C = blank_user\<lparr>username := ''carol'', roomId := ''r1'', socketId := ''C'',
     rtpCapabilities := Some [''opus'', ''VP8''], consumerTransport := Some 16,
     consumers := Some [17, 18]\<rparr>"

definition peer_D :: user where
  "peer_D = blank_user\<lparr>username := ''dave'', roomId := ''r1'', socketId := ''D''\<rparr>"

definition call_state :: server_state where
  "call_state = \<lparr>userSocketMap = [peer_A, peer_B, peer_C, peer_D],
     ioRooms = (\<lambda>r. [])(''r1'' := [''A'', ''B'', ''C'', ''D'']),
     transports = [10 \<mapsto> \<lparr>t_closed = False\<rparr>, 13 \<mapsto> \<lparr>t_closed = False\<rparr>,
                   16 \<mapsto> \<lparr>t_closed = False\<rparr>],
     eproducers = [11 \<mapsto> \<lparr>p_kind = Video, p_paused = False, p_closed = False\<rparr>,
                   12 \<mapsto> \<lparr>p_kind = Audio, p_paused = False, p_closed = False\<rparr>],
     econsumers = [14 \<mapsto> \<lparr>c_producerId = 11, c_kind = Video, c_paused = True, c_closed = False\<rparr>,
                   15 \<mapsto> \<lparr>c_producerId = 12, c_kind = Audio, c_paused = False, c_closed = False\<rparr>,
                   17 \<mapsto> \<lparr>c_producerId = 11, c_kind = Video, c_paused = True, c_closed = False\<rparr>,
                   18 \<mapsto> \<lparr>c_producerId = 12, c_kind = Audio, c_paused = False, c_closed = False\<rparr>],
     nextId = 19\<rparr>"

text \<open>The requests that lead from the empty state to \<open>call_state\<close>.\<close>

definition joined :: server_state where
  "joined =
     fst (join_request ''D'' (blank_user\<lparr>username := ''dave'', roomId := ''r1''\<rparr>)
       (fst (join_request ''C'' (blank_user\<lparr>username := ''carol'', roomId := ''r1''\<rparr>)
         (fst (join_request ''B'' (blank_user\<lparr>username := ''bob'', roomId := ''r1''\<rparr>)
           (fst (join_request ''A'' (blank_user\<lparr>username := ''alice'', roomId := ''r1''\<rparr>)
              empty_state)))))))"

definition negotiated :: server_state where
  "negotiated =
     fst (join_router ''C'' (Some [''opus'', ''VP8''])
       (fst (join_router ''B'' (Some [''opus'', ''VP8''])
         (fst (join_router ''A'' (Some [''opus'', ''VP8'']) joined)))))"

definition producing :: server_state where
  "producing =
     fst (produce engine_ok ''A'' Audio None
       (fst (produce engine_ok ''A'' Video (Some 10)
         (fst (create_producer_transport engine_ok ''A'' negotiated)))))"

definition consuming :: server_state where
  "consuming =
     fst (consume engine_ok ''C'' ''A''
       (fst (create_consumer_transport engine_ok ''C''
         (fst (consume engine_ok ''B'' ''A''
           (fst (create_consumer_transport engine_ok ''B'' producing)))))))"

text \<open>
  Two create-producer-transport requests of dave that overlap: both have passed their
  test in \<open>call_state\<close> before the engine answers the first; then the first stores
  its transport, then the second.
\<close>

definition first_stored :: server_state where
  "first_stored = fst (create_producer_transport_store engine_ok ''D'' call_state)"

definition second_stored :: server_state where
  "second_stored = fst (create_producer_transport_store engine_ok ''D'' first_stored)"

text \<open>The same for two create-consumer-transport requests of dave.\<close>

definition first_stored_consumer :: server_state where
  "first_stored_consumer = fst (create_consumer_transport_store engine_ok ''D'' call_state)"

definition second_stored_consumer :: server_state where
  "second_stored_consumer
     = fst (create_consumer_transport_store engine_ok ''D'' first_stored_consumer)"



section \<open>Auxiliary facts\<close>

lemmas sample_defs = engine_ok_def empty_state_def blank_user_def peer_A_def peer_B_def
  peer_C_def peer_D_def call_state_def

lemmas handler_defs = join_request_def join_router_def create_producer_transport_def
  create_producer_transport_test_def create_producer_transport_store_def
  create_consumer_transport_def create_consumer_transport_test_def
  create_consumer_transport_store_def createWebRtcTransport_def produce_def
  createConsumer_def getUserBySocketId_def getUsersInRoom_def socket_join_def map_set_def

lemma joined_eq:
  "joined = \<lparr>userSocketMap =
       [blank_user\<lparr>username := ''alice'', roomId := ''r1'', socketId := ''A''\<rparr>,
        blank_user\<lparr>username := ''bob'', roomId := ''r1'', socketId := ''B''\<rparr>,
        blank_user\<lparr>username := ''carol'', roomId := ''r1'', socketId := ''C''\<rparr>,
        peer_D],
     ioRooms = (\<lambda>r. [])(''r1'' := [''A'', ''B'', ''C'', ''D'']),
     transports = Map.empty, eproducers = Map.empty, econsumers = Map.empty, nextId = 10\<rparr>"
  by (simp add: joined_def sample_defs handler_defs Let_def)

subsection \<open>The registry\<close>

lemma find_update_user:
  "find (\<lambda>u. socketId u = sid) us = Some p \<Longrightarrow> socketId (f p) = sid
   \<Longrightarrow> find (\<lambda>u. socketId u = sid) (update_user sid f us) = Some (f p)"
  by (induction us) (auto split: if_splits)

lemma find_socketId: "find (\<lambda>u. socketId u = sid) us = Some p \<Longrightarrow> socketId p = sid"
  by (auto simp: find_Some_iff)

lemma count_list_distinct: "distinct xs \<Longrightarrow> x \<in> set xs \<Longrightarrow> count_list xs x = 1"
  by (induction xs) (auto simp: count_list_0_iff)

text \<open>\<open>rooms_ok\<close> holds initially and is kept by joining and by disconnecting.\<close>

lemma rooms_ok_empty_state: "rooms_ok empty_state"
  by (simp add: rooms_ok_def empty_state_def)

lemma rooms_ok_join_request:
  assumes "rooms_ok st"
  shows "rooms_ok (fst (join_request sid usr st))"
proof (cases "find (\<lambda>u. roomId u = roomId usr \<and> username u = username usr) (userSocketMap st)")
  case None
  then show ?thesis
    using assms by (auto simp: join_request_def rooms_ok_def socket_join_def Let_def)
next
  case (Some existingUser)
  then show ?thesis
    using assms by (simp add: join_request_def)
qed

lemma rooms_ok_disconnecting:
  assumes "rooms_ok st"
  shows "rooms_ok (fst (disconnecting sid st))"
proof (cases "getUserBySocketId st sid")
  case None
  then show ?thesis
    using assms by (simp add: disconnecting_def)
next
  case (Some usr)
  then show ?thesis
    using assms by (auto simp: disconnecting_def rooms_ok_def socket_leave_def distinct_removeAll)
qed

subsection \<open>Creating consumers\<close>



lemma createConsumer_not_ready:
  assumes "getUserBySocketId st sid = Some peer"
      and "consumerTransport peer = None \<or> rtpCapabilities peer = None"
  shows "createConsumer eng sid pid st =
           Inl (if consumerTransport peer = None then ''consumerTransport not found''
                else ''cannot consume - incompatible RTP capabilities'')"
  using assms by (auto simp: createConsumer_def split: option.splits)








lemma consume_loop_create_all:
  "consume_loop eng sid peerId run st =
     (case create_all eng sid (drop (r_pos run) (producers_of st peerId)) st of
        (ds, st', logs) \<Rightarrow> (r_details run @ ds, st', logs))"
proof (induction eng sid peerId run st rule: consume_loop.induct)
  case (1 eng sid peerId run st)
  show ?case
  proof (cases "r_pos run < length (producers_of st peerId)")
    case False
    then show ?thesis
      by (subst consume_loop.simps) simp
  next
    case True
    obtain run1 st1 logs1 where t: "consume_turn eng sid peerId run st = (run1, st1, logs1)"
      by (cases "consume_turn eng sid peerId run st") auto
    note m = consume_turn_moves_on[OF t True]
    have d: "drop (r_pos run) (producers_of st peerId)
               = producers_of st peerId ! r_pos run # drop (Suc (r_pos run)) (producers_of st peerId)"
      using True by (simp add: Cons_nth_drop_Suc)
    have ih: "consume_loop eng sid peerId run1 st1 =
                (case create_all eng sid (drop (Suc (r_pos run)) (producers_of st peerId)) st1 of
                   (ds, st', logs) \<Rightarrow> (r_details run1 @ ds, st', logs))"
      using "1.IH"[OF True t[symmetric] refl] m by simp
    show ?thesis
      using t True
      by (subst consume_loop.simps)
         (auto simp: ih d consume_turn_def split: sum.splits prod.splits)
  qed
qed

lemma create_all_not_ready:
  assumes "getUserBySocketId st sid = Some peer"
      and "consumerTransport peer = None \<or> rtpCapabilities peer = None"
  shows "create_all eng sid pids st =
           ([], st,
            concat (map (\<lambda>p. [ConsoleError
                      (if consumerTransport peer = None then ''consumerTransport not found''
                       else ''cannot consume - incompatible RTP capabilities''),
                      ConsoleError ''Failed to create consumer for producer'']) pids))"
  by (induction pids) (simp_all add: createConsumer_not_ready[OF assms])

lemma consume_as_create_all:
  assumes "getUserBySocketId st sid = Some peer"
      and "find (\<lambda>u. socketId u = peerId) (userSocketMap st) = Some otherPeer"
  shows "consume eng sid peerId st =
           (case create_all eng sid (producers_of st peerId) st of
              (ds, st', logs) \<Rightarrow> (st', logs @ [Callback sid (RConsumerDetailsArray ds)]))"
  using assms
  by (auto simp: consume_def consume_start_def consume_loop_create_all split: prod.splits)

lemma scenario_reaches_call_state: "consuming = call_state"
  by (simp add: consuming_def producing_def negotiated_def joined_eq sample_defs handler_defs
        consume_def consume_start_def consume_loop_create_all producers_of_def
        Let_def eval_nat_numeral)

subsection \<open>The cascade\<close>


lemma set_consumer_paused_frame:
  "userSocketMap (set_consumer_paused a cid st) = userSocketMap st"
  "eproducers (set_consumer_paused a cid st) = eproducers st"
  "transports (set_consumer_paused a cid st) = transports st"
  "ioRooms (set_consumer_paused a cid st) = ioRooms st"
  "nextId (set_consumer_paused a cid st) = nextId st"
  by (simp_all add: set_consumer_paused_def)

lemma set_consumer_paused_twice:
  "set_consumer_paused a cid (set_consumer_paused a cid st) = set_consumer_paused a cid st"
  by (simp add: set_consumer_paused_def option.map_comp o_def)

lemma on_producer_event_after_call:
  "\<not> consumer_call_fails eng a cid \<Longrightarrow>
     on_producer_event eng a cid (set_consumer_paused a cid st) = set_consumer_paused a cid st"
  by (simp add: on_producer_event_def set_consumer_paused_twice)


lemma cascade_consumers_frame:
  "userSocketMap (snd (cascade_consumers eng a pid cids st)) = userSocketMap st
   \<and> eproducers (snd (cascade_consumers eng a pid cids st)) = eproducers st
   \<and> transports (snd (cascade_consumers eng a pid cids st)) = transports st
   \<and> ioRooms (snd (cascade_consumers eng a pid cids st)) = ioRooms st
   \<and> nextId (snd (cascade_consumers eng a pid cids st)) = nextId st"
  by (induction cids arbitrary: st)
     (simp_all add: on_producer_event_after_call set_consumer_paused_frame)



lemma cascade_consumers_append:
  "cascade_consumers eng a pid (xs @ ys) st =
     (case cascade_consumers eng a pid xs st of
        (Some e, st1) \<Rightarrow> (Some e, st1)
      | (None, st1) \<Rightarrow> cascade_consumers eng a pid ys st1)"
  by (induction xs arbitrary: st) simp_all

lemma cascade_users_flat:
  "cascade_users eng a pid us st = cascade_consumers eng a pid (consumer_ids us) st"
proof (induction us arbitrary: st)
  case Nil
  then show ?case by (simp add: consumer_ids_def)
next
  case (Cons u us)
  have c: "consumer_ids (u # us)
             = (case consumers u of None \<Rightarrow> [] | Some cids \<Rightarrow> cids) @ consumer_ids us"
    by (simp add: consumer_ids_def)
  show ?case
    by (cases "consumers u")
       (auto simp: c cascade_consumers_append Cons.IH split: prod.splits option.splits)
qed



lemma producer_cascade_frame:
  "userSocketMap (fst (producer_cascade eng a pid st)) = userSocketMap st"
  using cascade_consumers_frame[of eng a pid "consumer_ids (userSocketMap st)" "set_producer_paused a pid st"]
  by (auto simp: producer_cascade_def cascade_users_flat set_producer_paused_def
        split: prod.splits option.splits)

lemma run_tasks_frame: "userSocketMap (fst (run_tasks eng ts st)) = userSocketMap st"
proof (induction ts arbitrary: st)
  case Nil
  then show ?case by simp
next
  case (Cons t ts)
  have "userSocketMap (fst (run_task eng t st)) = userSocketMap st"
    by (cases t) (simp_all add: pauseProducer_def resumeProducer_def producer_cascade_frame)
  then show ?case
    using Cons.IH[of "fst (run_task eng t st)"] by (auto split: prod.splits)
qed

lemma toggle_before_cascade:
  assumes "getUserBySocketId st sid = Some usr" and "producers usr = Some ps"
  shows "fst (snd (toggle kind sid enabled True st))
           = (if roomId usr \<noteq> []
              then [Broadcast (roomId usr) sid
                      (if kind = Video then VIDEO_STATE_CHANGED sid enabled
                       else AUDIO_STATE_CHANGED sid enabled)]
              else []) @ [Callback sid RSuccess]"
    and "eproducers (fst (toggle kind sid enabled True st)) = eproducers st"
    and "econsumers (fst (toggle kind sid enabled True st)) = econsumers st"
    and "getUserBySocketId (fst (toggle kind sid enabled True st)) sid
           = Some (if kind = Video then usr\<lparr>hasVideo := Some enabled\<rparr>
                   else usr\<lparr>hasAudio := Some enabled\<rparr>)"
    and "snd (snd (toggle kind sid enabled True st))
           = map (if enabled then ResumeProducer else PauseProducer)
               (filter (\<lambda>p. producer_has_kind st p kind) ps)"
    and "fst (completed eng (toggle kind sid enabled True st))
           = fst (run_tasks eng (snd (snd (toggle kind sid enabled True st)))
                   (fst (toggle kind sid enabled True st)))"
    and "snd (completed eng (toggle kind sid enabled True st))
           = fst (snd (toggle kind sid enabled True st))
             @ snd (run_tasks eng (snd (snd (toggle kind sid enabled True st)))
                   (fst (toggle kind sid enabled True st)))"
    and "getUserBySocketId (fst (completed eng (toggle kind sid enabled True st))) sid
           = Some (if kind = Video then usr\<lparr>hasVideo := Some enabled\<rparr>
                   else usr\<lparr>hasAudio := Some enabled\<rparr>)"
proof -
  have s: "socketId usr = sid"
    using assms(1) by (auto simp: getUserBySocketId_def dest: find_socketId)
  have f: "find (\<lambda>u. socketId u = sid)
             (update_user sid (\<lambda>u. if kind = Video then u\<lparr>hasVideo := Some enabled\<rparr>
                                   else u\<lparr>hasAudio := Some enabled\<rparr>) (userSocketMap st))
           = Some (if kind = Video then usr\<lparr>hasVideo := Some enabled\<rparr>
                   else usr\<lparr>hasAudio := Some enabled\<rparr>)"
    using assms(1) s by (intro find_update_user) (simp_all add: getUserBySocketId_def)
  show "fst (snd (toggle kind sid enabled True st))
           = (if roomId usr \<noteq> []
              then [Broadcast (roomId usr) sid
                      (if kind = Video then VIDEO_STATE_CHANGED sid enabled
                       else AUDIO_STATE_CHANGED sid enabled)]
              else []) @ [Callback sid RSuccess]"
    using assms by (simp add: toggle_def Let_def)
  show "eproducers (fst (toggle kind sid enabled True st)) = eproducers st"
    using assms by (simp add: toggle_def Let_def)
  show "econsumers (fst (toggle kind sid enabled True st)) = econsumers st"
    using assms by (simp add: toggle_def Let_def)
  show g: "getUserBySocketId (fst (toggle kind sid enabled True st)) sid
           = Some (if kind = Video then usr\<lparr>hasVideo := Some enabled\<rparr>
                   else usr\<lparr>hasAudio := Some enabled\<rparr>)"
    using assms f by (simp add: toggle_def Let_def getUserBySocketId_def)
  show "snd (snd (toggle kind sid enabled True st))
           = map (if enabled then ResumeProducer else PauseProducer)
               (filter (\<lambda>p. producer_has_kind st p kind) ps)"
    using assms by (simp add: toggle_def Let_def)
  show c: "fst (completed eng (toggle kind sid enabled True st))
           = fst (run_tasks eng (snd (snd (toggle kind sid enabled True st)))
                   (fst (toggle kind sid enabled True st)))"
    by (simp add: completed_def split: prod.splits)
  show "snd (completed eng (toggle kind sid enabled True st))
           = fst (snd (toggle kind sid enabled True st))
             @ snd (run_tasks eng (snd (snd (toggle kind sid enabled True st)))
                   (fst (toggle kind sid enabled True st)))"
    by (simp add: completed_def split: prod.splits)
  show "getUserBySocketId (fst (completed eng (toggle kind sid enabled True st))) sid
           = Some (if kind = Video then usr\<lparr>hasVideo := Some enabled\<rparr>
                   else usr\<lparr>hasAudio := Some enabled\<rparr>)"
    using g by (simp add: c getUserBySocketId_def run_tasks_frame)
qed

lemmas cascade_defs = pauseProducer_def resumeProducer_def producer_cascade_def
  producer_call_fails_def consumer_call_fails_def set_producer_paused_def
  set_consumer_paused_def on_producer_event_def consumer_of_def

section \<open>C1: the pause and resume cascade\<close>




section \<open>C2: disconnecting\<close>

text \<open>
  C2, as amended. When the socket of a registered peer A disconnects, every entry with
  A's socket id is removed from the registry and every other entry is kept as it is,
  its consumer map included; no transport, producer or consumer of the engine is closed
  or otherwise changed; and exactly one user-disconnected event carrying A is broadcast
  to A's room, which reaches the socket of every remaining registered member of that
  room exactly once and does not reach A. (The state is one in which \<open>rooms_ok\<close>
  holds, as it does in every state that joining and disconnecting lead to.)
\<close>

theorem disconnecting_effect:
  assumes "getUserBySocketId st sid = Some usr" and "rooms_ok st"
  shows "userSocketMap (fst (disconnecting sid st))
           = filter (\<lambda>u. socketId u \<noteq> sid) (userSocketMap st)
       \<and> transports (fst (disconnecting sid st)) = transports st
       \<and> eproducers (fst (disconnecting sid st)) = eproducers st
       \<and> econsumers (fst (disconnecting sid st)) = econsumers st
       \<and> snd (disconnecting sid st) = [Broadcast (roomId usr) sid (USER_DISCONNECTED usr)]
       \<and> (\<forall>u \<in> set (userSocketMap (fst (disconnecting sid st))). roomId u = roomId usr \<longrightarrow>
            deliveries st (snd (disconnecting sid st)) (socketId u) = 1)
       \<and> deliveries st (snd (disconnecting sid st)) sid = 0"
proof -
  have d: "disconnecting sid st =
             (socket_leave sid (roomId usr)
                (st\<lparr>userSocketMap := filter (\<lambda>u. socketId u \<noteq> sid) (userSocketMap st)\<rparr>),
              [Broadcast (roomId usr) sid (USER_DISCONNECTED usr)])"
    using assms(1) by (simp add: disconnecting_def)
  have "count_list (filter (\<lambda>t. t \<noteq> sid) (ioRooms st (roomId usr))) (socketId u) = 1"
    if "u \<in> set (userSocketMap st)" "socketId u \<noteq> sid" "roomId u = roomId usr" for u
    using that assms(2) by (intro count_list_distinct) (auto simp: rooms_ok_def)
  then show ?thesis
    by (auto simp: d socket_leave_def deliveries_def count_list_0_iff)
qed

theorem disconnecting_effect_witness:
  "userSocketMap (fst (disconnecting ''A'' call_state)) = [peer_B, peer_C, peer_D]
   \<and> econsumers (fst (disconnecting ''A'' call_state)) = econsumers call_state
   \<and> snd (disconnecting ''A'' call_state) = [Broadcast ''r1'' ''A'' (USER_DISCONNECTED peer_A)]
   \<and> deliveries call_state (snd (disconnecting ''A'' call_state)) ''B'' = 1
   \<and> deliveries call_state (snd (disconnecting ''A'' call_state)) ''C'' = 1
   \<and> deliveries call_state (snd (disconnecting ''A'' call_state)) ''D'' = 1
   \<and> deliveries call_state (snd (disconnecting ''A'' call_state)) ''A'' = 0"
proof -
  have h: "getUserBySocketId call_state ''A'' = Some peer_A" "rooms_ok call_state"
    by (simp_all add: getUserBySocketId_def rooms_ok_def sample_defs)
  have f: "filter (\<lambda>u. socketId u \<noteq> ''A'') (userSocketMap call_state) = [peer_B, peer_C, peer_D]"
    by (simp add: sample_defs)
  have r: "roomId peer_A = ''r1''" "roomId peer_B = ''r1''" "roomId peer_C = ''r1''"
    "roomId peer_D = ''r1''"
    by (simp_all add: sample_defs)
  have s: "socketId peer_B = ''B''" "socketId peer_C = ''C''" "socketId peer_D = ''D''"
    by (simp_all add: sample_defs)
  note e = disconnecting_effect[OF h]
  have m: "userSocketMap (fst (disconnecting ''A'' call_state)) = [peer_B, peer_C, peer_D]"
    using e by (simp add: f)
  have o: "snd (disconnecting ''A'' call_state) = [Broadcast ''r1'' ''A'' (USER_DISCONNECTED peer_A)]"
    using e by (simp add: r)
  have "\<forall>u \<in> set [peer_B, peer_C, peer_D]. roomId u = ''r1'' \<longrightarrow>
          deliveries call_state (snd (disconnecting ''A'' call_state)) (socketId u) = 1"
    using e unfolding m r by blast
  then have "deliveries call_state (snd (disconnecting ''A'' call_state)) ''B'' = 1
      \<and> deliveries call_state (snd (disconnecting ''A'' call_state)) ''C'' = 1
      \<and> deliveries call_state (snd (disconnecting ''A'' call_state)) ''D'' = 1"
    by (simp add: r s)
  moreover have "econsumers (fst (disconnecting ''A'' call_state)) = econsumers call_state"
    using e by blast
  moreover have "deliveries call_state (snd (disconnecting ''A'' call_state)) ''A'' = 0"
    using e by blast
  ultimately show ?thesis
    using m o by simp
qed

text \<open>
  The claim as stated fails: after alice has disconnected, her producer 11 and her
  transport 10 are not closed, and bob's consumer 14 of that producer is not closed and
  is still in bob's consumer map.
\<close>

theorem disconnecting_closes_nothing:
  "userSocketMap (fst (disconnecting ''A'' call_state)) = [peer_B, peer_C, peer_D]
   \<and> consumers peer_B = Some [14, 15]
   \<and> econsumers (fst (disconnecting ''A'' call_state)) 14
       = Some \<lparr>c_producerId = 11, c_kind = Video, c_paused = True, c_closed = False\<rparr>
   \<and> eproducers (fst (disconnecting ''A'' call_state)) 11
       = Some \<lparr>p_kind = Video, p_paused = False, p_closed = False\<rparr>
   \<and> transports (fst (disconnecting ''A'' call_state)) 10 = Some \<lparr>t_closed = False\<rparr>"
  by (simp add: disconnecting_def getUserBySocketId_def socket_leave_def sample_defs)

section \<open>C3: one transport per direction\<close>

text \<open>
  The guard of the two handlers: a request whose test finds the peer's slot filled is
  answered with the already-exists error and leaves the state, with the transport in
  the slot, as it was.
\<close>

lemma create_transport_rejected_when_slot_filled:
  "(getUserBySocketId st sid = Some peer \<and> producerTransport peer = Some t \<longrightarrow>
      create_producer_transport_test sid st
        = Some [Callback sid (RError ''Producer transport already exists'')]
      \<and> create_producer_transport eng sid st
        = (st, [Callback sid (RError ''Producer transport already exists'')]))
   \<and> (getUserBySocketId st sid = Some peer \<and> consumerTransport peer = Some t \<longrightarrow>
      create_consumer_transport_test sid st
        = Some [Callback sid (RError ''Consumer transport already exists'')]
      \<and> create_consumer_transport eng sid st
        = (st, [Callback sid (RError ''Consumer transport already exists'')]))"
  by (simp add: create_producer_transport_def create_consumer_transport_def
        create_producer_transport_test_def create_consumer_transport_test_def)

text \<open>
  C3 does not hold of the code. The handler tests the slot, awaits the engine and only
  then stores, so of two requests of one peer that overlap both pass the test. Dave,
  who has no producer transport, sends two requests: neither is rejected, the engine
  creates the transports 19 and 20, both stay open, and the second store replaces the
  first in dave's slot. A request that arrives after the first store is rejected. Two
  overlapping requests for a consumer transport fare the same.
\<close>

theorem overlapping_create_requests_make_two_transports:
  "create_producer_transport_test ''D'' call_state = None
   \<and> snd (create_producer_transport_store engine_ok ''D'' call_state)
       = [Callback ''D'' (RParams 19)]
   \<and> snd (create_producer_transport_store engine_ok ''D'' first_stored)
       = [Callback ''D'' (RParams 20)]
   \<and> getUserBySocketId first_stored ''D'' = Some (peer_D\<lparr>producerTransport := Some 19\<rparr>)
   \<and> getUserBySocketId second_stored ''D'' = Some (peer_D\<lparr>producerTransport := Some 20\<rparr>)
   \<and> transports second_stored 19 = Some \<lparr>t_closed = False\<rparr>
   \<and> transports second_stored 20 = Some \<lparr>t_closed = False\<rparr>
   \<and> create_producer_transport_test ''D'' first_stored
       = Some [Callback ''D'' (RError ''Producer transport already exists'')]
   \<and> create_consumer_transport_test ''D'' call_state = None
   \<and> snd (create_consumer_transport_store engine_ok ''D'' call_state)
       = [Callback ''D'' (RParams 19)]
   \<and> snd (create_consumer_transport_store engine_ok ''D'' first_stored_consumer)
       = [Callback ''D'' (RParams 20)]
   \<and> getUserBySocketId second_stored_consumer ''D''
       = Some (peer_D\<lparr>consumerTransport := Some 20\<rparr>)
   \<and> transports second_stored_consumer 19 = Some \<lparr>t_closed = False\<rparr>
   \<and> transports second_stored_consumer 20 = Some \<lparr>t_closed = False\<rparr>"
  by (simp add: first_stored_def second_stored_def first_stored_consumer_def
        second_stored_consumer_def create_producer_transport_test_def
        create_consumer_transport_test_def create_producer_transport_store_def
        create_consumer_transport_store_def createWebRtcTransport_def getUserBySocketId_def
        sample_defs)

section \<open>C4: the initial paused flag of a consumer\<close>

text \<open>
  C4. Whenever \<^verbatim>\<open>createConsumer\<close> creates a consumer, the consumer has the kind of
  its producer and its paused flag says whether that kind is video: a consumer of a
  video producer is created paused, a consumer of an audio producer is created active.
  The descriptor returned reports the same kind and flag.
\<close>

theorem createConsumer_initial_paused:
  assumes "createConsumer eng sid pid st = Inr (d, st')"
  shows "\<exists>pr c. eproducers st pid = Some pr \<and> econsumers st' (d_id d) = Some c
           \<and> c_producerId c = pid \<and> c_kind c = p_kind pr
           \<and> c_paused c = (p_kind pr = Video) \<and> d_paused d = c_paused c
           \<and> d_kind d = c_kind c \<and> d_producerId d = pid"
  using assms
  by (auto simp: createConsumer_def Let_def split: option.splits if_splits)

theorem createConsumer_initial_paused_witness:
  "(\<exists>d st' c. createConsumer engine_ok ''B'' 11 call_state = Inr (d, st')
       \<and> econsumers st' (d_id d) = Some c \<and> c_kind c = Video \<and> c_paused c \<and> d_paused d)
   \<and> (\<exists>d st' c. createConsumer engine_ok ''B'' 12 call_state = Inr (d, st')
       \<and> econsumers st' (d_id d) = Some c \<and> c_kind c = Audio \<and> \<not> c_paused c \<and> \<not> d_paused d)"
proof -
  obtain d1 s1 where v: "createConsumer engine_ok ''B'' 11 call_state = Inr (d1, s1)"
    by (simp add: createConsumer_def getUserBySocketId_def sample_defs Let_def)
  obtain d2 s2 where a: "createConsumer engine_ok ''B'' 12 call_state = Inr (d2, s2)"
    by (simp add: createConsumer_def getUserBySocketId_def sample_defs Let_def)
  have k: "eproducers call_state 11 = Some \<lparr>p_kind = Video, p_paused = False, p_closed = False\<rparr>"
    "eproducers call_state 12 = Some \<lparr>p_kind = Audio, p_paused = False, p_closed = False\<rparr>"
    by (simp_all add: sample_defs)
  show ?thesis
    using createConsumer_initial_paused[OF v] createConsumer_initial_paused[OF a] v a k
    by auto
qed

section \<open>C5: consuming the producers of a peer\<close>




section \<open>C6: a failing consumer inside the cascade\<close>

text \<open>
  C6 does not hold of the code. The loop over the consumers stands inside the one
  \<^verbatim>\<open>try\<close> of the function, so the first consumer whose engine call throws ends the
  cascade: with bob's consumer 15 failing to pause, carol's consumer 18 of the same
  producer 12 is never visited and stays active, and with bob's consumer 14 failing to
  resume, carol's consumer 17 of producer 11 stays paused. One error is logged.
\<close>

theorem cascade_stops_at_failing_consumer:
  "econsumers (fst (pauseProducer (engine_ok\<lparr>consumerPauseFails := (\<lambda>c. c = 15)\<rparr>) 12
                      call_state)) 18
     = Some \<lparr>c_producerId = 12, c_kind = Audio, c_paused = False, c_closed = False\<rparr>
   \<and> snd (pauseProducer (engine_ok\<lparr>consumerPauseFails := (\<lambda>c. c = 15)\<rparr>) 12 call_state)
     = [ConsoleError ''Error pausing producer'']
   \<and> econsumers (fst (resumeProducer (engine_ok\<lparr>consumerResumeFails := (\<lambda>c. c = 14)\<rparr>) 11
                      call_state)) 17
     = Some \<lparr>c_producerId = 11, c_kind = Video, c_paused = True, c_closed = False\<rparr>
   \<and> snd (resumeProducer (engine_ok\<lparr>consumerResumeFails := (\<lambda>c. c = 14)\<rparr>) 11 call_state)
     = [ConsoleError ''Error resuming producer'']"
  by (simp add: cascade_defs sample_defs)

section \<open>C7: duplicate usernames\<close>

text \<open>
  C7. A join request that names a username already present in the target room is
  answered with the username-exists event to the requesting socket, and nothing else
  happens: the state, which holds the registry and the room membership, is returned
  as it was.
\<close>

theorem join_request_duplicate_username:
  assumes "u \<in> set (userSocketMap st)"
      and "roomId u = roomId usr" and "username u = username usr"
  shows "join_request sid usr st = (st, [Emit sid USERNAME_EXISTS])"
proof -
  have "find (\<lambda>u. roomId u = roomId usr \<and> username u = username usr) (userSocketMap st) \<noteq> None"
    using assms by (auto simp: find_None_iff)
  then show ?thesis
    by (auto simp: join_request_def)
qed

theorem join_request_duplicate_username_witness:
  "peer_A \<in> set (userSocketMap call_state)
   \<and> join_request ''E'' (blank_user\<lparr>username := ''alice'', roomId := ''r1''\<rparr>) call_state
       = (call_state, [Emit ''E'' USERNAME_EXISTS])"
proof -
  have h: "peer_A \<in> set (userSocketMap call_state)"
    "roomId peer_A = roomId (blank_user\<lparr>username := ''alice'', roomId := ''r1''\<rparr>)"
    "username peer_A = username (blank_user\<lparr>username := ''alice'', roomId := ''r1''\<rparr>)"
    by (simp_all add: sample_defs)
  show ?thesis
    using h(1) join_request_duplicate_username[OF h, of "''E''"] by simp
qed

section \<open>C8: negotiated capabilities\<close>

text \<open>
  C8, as amended. A join-router request of a peer that has no capabilities stored is
  acknowledged with success and stores the capabilities it carries. Every later
  join-router request of a peer that has capabilities stored is acknowledged with
  success and the mark ``already joined'', not with an error, and leaves the state, with
  the stored capabilities, as it was.
\<close>

theorem join_router_keeps_capabilities:
  assumes "getUserBySocketId st sid = Some peer"
  shows "(rtpCapabilities peer = None \<longrightarrow>
            snd (join_router sid caps st) = [Callback sid RSuccess]
            \<and> getUserBySocketId (fst (join_router sid caps st)) sid
                = Some (peer\<lparr>rtpCapabilities := caps\<rparr>))
       \<and> (rtpCapabilities peer \<noteq> None \<longrightarrow>
            join_router sid caps' st = (st, [Callback sid RSuccessAlreadyJoined]))"
proof -
  have "socketId peer = sid"
    using assms by (auto simp: getUserBySocketId_def dest: find_socketId)
  then show ?thesis
    using assms find_update_user[of sid "userSocketMap st" peer "\<lambda>u. u\<lparr>rtpCapabilities := caps\<rparr>"]
    by (auto simp: join_router_def getUserBySocketId_def)
qed

theorem join_router_keeps_capabilities_witness:
  "getUserBySocketId (fst (join_router ''D'' (Some [''H264'']) call_state)) ''D''
     = Some (peer_D\<lparr>rtpCapabilities := Some [''H264'']\<rparr>)
   \<and> snd (join_router ''D'' (Some [''H264'']) call_state) = [Callback ''D'' RSuccess]
   \<and> join_router ''A'' (Some [''H264'']) call_state
     = (call_state, [Callback ''A'' RSuccessAlreadyJoined])"
proof -
  have d: "getUserBySocketId call_state ''D'' = Some peer_D" "rtpCapabilities peer_D = None"
    by (simp_all add: getUserBySocketId_def sample_defs)
  have a: "getUserBySocketId call_state ''A'' = Some peer_A" "rtpCapabilities peer_A \<noteq> None"
    by (simp_all add: getUserBySocketId_def sample_defs)
  show ?thesis
    using join_router_keeps_capabilities[OF d(1), of "Some [''H264'']"] d(2)
          join_router_keeps_capabilities[OF a(1), of _ "Some [''H264'']"] a(2)
    by simp
qed

text \<open>
  The claim as stated fails: alice, whose capabilities are stored, sends a second
  join-router request, and the answer is the success acknowledgement, not a rejection.
\<close>

theorem join_router_again_reports_success:
  "rtpCapabilities peer_A = Some [''opus'', ''VP8'']
   \<and> getUserBySocketId call_state ''A'' = Some peer_A
   \<and> snd (join_router ''A'' (Some [''H264'']) call_state) = [Callback ''A'' RSuccessAlreadyJoined]
   \<and> (\<nexists>msg. Callback ''A'' (RError msg) \<in> set (snd (join_router ''A'' (Some [''H264'']) call_state)))"
  by (simp add: join_router_def getUserBySocketId_def sample_defs)

section \<open>C9: consuming without a transport or capabilities\<close>

text \<open>
  C9. If the subscriber has no consumer transport or no stored capabilities, a consume
  request against a registered source peer that has producers logs the two errors of
  a failed creation for each producer, changes nothing, and is answered with an empty
  list of descriptors, not with an error.
\<close>

theorem consume_without_transport_or_capabilities:
  assumes "getUserBySocketId st sid = Some peer"
      and "consumerTransport peer = None \<or> rtpCapabilities peer = None"
      and "find (\<lambda>u. socketId u = peerId) (userSocketMap st) = Some otherPeer"
      and "producers otherPeer = Some ps"
  shows "consume eng sid peerId st =
           (st, concat (map (\<lambda>p. [ConsoleError
                      (if consumerTransport peer = None then ''consumerTransport not found''
                       else ''cannot consume - incompatible RTP capabilities''),
                      ConsoleError ''Failed to create consumer for producer'']) ps)
                @ [Callback sid (RConsumerDetailsArray [])])"
proof -
  have "producers_of st peerId = ps"
    using assms(3,4) by (simp add: producers_of_def)
  then show ?thesis
    by (simp add: consume_as_create_all[OF assms(1,3)] create_all_not_ready[OF assms(1,2)])
qed

theorem consume_without_transport_or_capabilities_witness:
  "consume engine_ok ''D'' ''A'' call_state =
     (call_state, [ConsoleError ''consumerTransport not found'',
                   ConsoleError ''Failed to create consumer for producer'',
                   ConsoleError ''consumerTransport not found'',
                   ConsoleError ''Failed to create consumer for producer'',
                   Callback ''D'' (RConsumerDetailsArray [])])"
proof -
  have h: "getUserBySocketId call_state ''D'' = Some peer_D"
    "consumerTransport peer_D = None \<or> rtpCapabilities peer_D = None"
    "find (\<lambda>u. socketId u = ''A'') (userSocketMap call_state) = Some peer_A"
    "producers peer_A = Some [11, 12]"
    by (simp_all add: getUserBySocketId_def sample_defs)
  have n: "consumerTransport peer_D = None"
    by (simp add: sample_defs)
  show ?thesis
    using consume_without_transport_or_capabilities[OF h, of engine_ok] by (simp add: n)
qed

section \<open>C10: toggling does not wait for the cascade\<close>

text \<open>
  C10. When a registered peer that has a producer map toggles its video (its audio),
  the handler returns with the room broadcast of the new state and the success
  acknowledgement sent and with the peer's \<^verbatim>\<open>hasVideo\<close> (\<^verbatim>\<open>hasAudio\<close>) flag set,
  while no producer and no consumer has changed yet: the pause or resume calls on the
  peer's producers of that kind are merely started. Whatever the engine answers when
  these calls complete, failures included, the broadcast and the acknowledgement have
  been sent before anything the calls log, and the flag keeps the requested value.
\<close>

theorem toggle_acknowledged_before_cascade:
  assumes "getUserBySocketId st sid = Some usr" and "producers usr = Some ps"
  shows "fst (snd (toggle_video sid enabled True st))
           = (if roomId usr \<noteq> []
              then [Broadcast (roomId usr) sid (VIDEO_STATE_CHANGED sid enabled)] else [])
             @ [Callback sid RSuccess]
       \<and> eproducers (fst (toggle_video sid enabled True st)) = eproducers st
       \<and> econsumers (fst (toggle_video sid enabled True st)) = econsumers st
       \<and> getUserBySocketId (fst (toggle_video sid enabled True st)) sid
           = Some (usr\<lparr>hasVideo := Some enabled\<rparr>)
       \<and> snd (snd (toggle_video sid enabled True st))
           = map (if enabled then ResumeProducer else PauseProducer)
               (filter (\<lambda>p. producer_has_kind st p Video) ps)
       \<and> snd (completed eng (toggle_video sid enabled True st))
           = fst (snd (toggle_video sid enabled True st))
             @ snd (run_tasks eng (snd (snd (toggle_video sid enabled True st)))
                     (fst (toggle_video sid enabled True st)))
       \<and> getUserBySocketId (fst (completed eng (toggle_video sid enabled True st))) sid
           = Some (usr\<lparr>hasVideo := Some enabled\<rparr>)
       \<and> fst (snd (toggle_audio sid enabled True st))
           = (if roomId usr \<noteq> []
              then [Broadcast (roomId usr) sid (AUDIO_STATE_CHANGED sid enabled)] else [])
             @ [Callback sid RSuccess]
       \<and> eproducers (fst (toggle_audio sid enabled True st)) = eproducers st
       \<and> econsumers (fst (toggle_audio sid enabled True st)) = econsumers st
       \<and> getUserBySocketId (fst (toggle_audio sid enabled True st)) sid
           = Some (usr\<lparr>hasAudio := Some enabled\<rparr>)
       \<and> snd (snd (toggle_audio sid enabled True st))
           = map (if enabled then ResumeProducer else PauseProducer)
               (filter (\<lambda>p. producer_has_kind st p Audio) ps)
       \<and> snd (completed eng (toggle_audio sid enabled True st))
           = fst (snd (toggle_audio sid enabled True st))
             @ snd (run_tasks eng (snd (snd (toggle_audio sid enabled True st)))
                     (fst (toggle_audio sid enabled True st)))
       \<and> getUserBySocketId (fst (completed eng (toggle_audio sid enabled True st))) sid
           = Some (usr\<lparr>hasAudio := Some enabled\<rparr>)"
  unfolding toggle_video_def toggle_audio_def
  using toggle_before_cascade[OF assms, where kind = Video and enabled = enabled]
        toggle_before_cascade[OF assms, where kind = Audio and enabled = enabled]
  by simp

theorem toggle_acknowledged_before_cascade_witness:
  "fst (snd (toggle_video ''A'' False True call_state))
     = [Broadcast ''r1'' ''A'' (VIDEO_STATE_CHANGED ''A'' False), Callback ''A'' RSuccess]
   \<and> snd (snd (toggle_video ''A'' False True call_state)) = [PauseProducer 11]
   \<and> eproducers (fst (toggle_video ''A'' False True call_state)) = eproducers call_state
   \<and> snd (completed (engine_ok\<lparr>producerPauseFails := (\<lambda>p. True)\<rparr>)
           (toggle_video ''A'' False True call_state))
     = [Broadcast ''r1'' ''A'' (VIDEO_STATE_CHANGED ''A'' False), Callback ''A'' RSuccess,
        ConsoleError ''Error pausing producer'']
   \<and> getUserBySocketId
        (fst (completed (engine_ok\<lparr>producerPauseFails := (\<lambda>p. True)\<rparr>)
           (toggle_video ''A'' False True call_state))) ''A''
     = Some (peer_A\<lparr>hasVideo := Some False\<rparr>)
   \<and> fst (snd (toggle_audio ''A'' False True call_state))
     = [Broadcast ''r1'' ''A'' (AUDIO_STATE_CHANGED ''A'' False), Callback ''A'' RSuccess]
   \<and> snd (snd (toggle_audio ''A'' False True call_state)) = [PauseProducer 12]"
proof -
  have h: "getUserBySocketId call_state ''A'' = Some peer_A" "producers peer_A = Some [11, 12]"
    by (simp_all add: getUserBySocketId_def sample_defs)
  have r: "roomId peer_A = ''r1''"
    by (simp add: sample_defs)
  have k: "producer_has_kind call_state 11 Video" "\<not> producer_has_kind call_state 12 Video"
    "\<not> producer_has_kind call_state 11 Audio" "producer_has_kind call_state 12 Audio"
    by (simp_all add: producer_has_kind_def sample_defs)
  have f: "pauseProducer (engine_ok\<lparr>producerPauseFails := (\<lambda>p. True)\<rparr>) 11 s
             = (s, [ConsoleError ''Error pausing producer''])" for s
    by (simp add: pauseProducer_def producer_cascade_def producer_call_fails_def)
  show ?thesis
    using toggle_acknowledged_before_cascade[OF h, of False
        "engine_ok\<lparr>producerPauseFails := (\<lambda>p. True)\<rparr>"]
    by (simp add: r k f)
qed

end
